theory Spec2Isabelle
  imports Main
begin

section \<open>JavaScript values\<close>

text \<open>
  The cell of \<^verbatim>\<open>mod.ts\<close> is generic in \<^verbatim>\<open>T\<close>, and its \<^verbatim>\<open>set\<close> inspects the
  run-time type of its argument, so the values are those of the language, one constructor
  for each answer of \<^verbatim>\<open>typeof\<close>. A function value carries a name of type \<open>'f\<close>; what
  the function does when it is called is given by an interpretation (below), over which
  every general statement is universally quantified. Numbers are the integers, which
  doubles represent exactly in the range the statements use; no statement depends on
  rounding.
\<close>

datatype 'f jsval =
    JUndefined
  | JNull
  | JBool bool
  | JNum int
  | JBigInt int
  | JStr string
  | JSymbol nat
  | JObj nat
  | JFun 'f

fun typeof :: "'f jsval \<Rightarrow> string" where
  "typeof JUndefined = ''undefined''"
| "typeof JNull = ''object''"
| "typeof (JBool b) = ''boolean''"
| "typeof (JNum n) = ''number''"
| "typeof (JBigInt n) = ''bigint''"
| "typeof (JStr s) = ''string''"
| "typeof (JSymbol k) = ''symbol''"
| "typeof (JObj r) = ''object''"
| "typeof (JFun f) = ''function''"

section \<open>The store of signals\<close>

text \<open>
  Modelled from the spec: the primitive \<^verbatim>\<open>signal\<close> and the type \<^verbatim>\<open>Signal\<close> are imported
  from \<^verbatim>\<open>@preact/signals\<close> and are not part of the sources. The spec describes a signal
  as the slot that holds the cell's one value, read and written through \<^verbatim>\<open>.value\<close>, a
  write being visible to the next read. A signal is an address of the store; creating one
  takes the next unused address. The bookkeeping of dependent readers and their
  notification belongs to the primitive and is not represented: the store holds the
  values only.
\<close>

record 'f heap =
  next_sig :: nat
  sig_value :: "nat \<Rightarrow> 'f jsval"

definition empty_heap :: "'f heap" where
  "empty_heap = \<lparr>next_sig = 0, sig_value = (\<lambda>_. JUndefined)\<rparr>"

text \<open>\<^verbatim>\<open>signal(initialValue)\<close>\<close>

definition signal_new :: "'f jsval \<Rightarrow> 'f heap \<Rightarrow> nat \<times> 'f heap" where
  "signal_new initialValue h =
     (next_sig h,
      h\<lparr>next_sig := Suc (next_sig h),
        sig_value := (sig_value h)(next_sig h := initialValue)\<rparr>)"

text \<open>Reading \<^verbatim>\<open>sig.value\<close>\<close>

definition sig_read :: "nat \<Rightarrow> 'f heap \<Rightarrow> 'f jsval \<times> 'f heap" where
  "sig_read sig h = (sig_value h sig, h)"

text \<open>The assignment \<^verbatim>\<open>sig.value = v\<close>\<close>

definition sig_write :: "nat \<Rightarrow> 'f jsval \<Rightarrow> 'f heap \<Rightarrow> 'f heap" where
  "sig_write sig v h = h\<lparr>sig_value := (sig_value h)(sig := v)\<rparr>"

section \<open>Calling a function value\<close>

text \<open>
  A call runs arbitrary code of the caller: it may write to any signal of the store,
  create signals, and either return a value or throw one (\<open>Inl\<close> is the thrown value).
  An interpretation gives this behaviour for every function name. A call that never
  returns is outside the model; then \<^verbatim>\<open>set\<close> does not return either.
\<close>

type_synonym 'f outcome = "('f jsval + 'f jsval) \<times> 'f heap"

type_synonym 'f interp = "'f \<Rightarrow> 'f jsval \<Rightarrow> 'f heap \<Rightarrow> 'f outcome"

text \<open>
  The call expression \<^verbatim>\<open>value(arg)\<close>. The cast \<^verbatim>\<open>value as (prev: T) => T\<close> is erased
  when the program runs; calling what is not a function throws a \<^verbatim>\<open>TypeError\<close>.
\<close>

fun js_call :: "'f interp \<Rightarrow> 'f jsval \<Rightarrow> 'f jsval \<Rightarrow> 'f heap \<Rightarrow> 'f outcome" where
  "js_call call (JFun f) arg h = call f arg h"
| "js_call call v arg h = (Inl (JStr ''TypeError: value is not a function''), h)"

section \<open>The atom\<close>

text \<open>
  The interface \<^verbatim>\<open>Atom<T>\<close>: two closures and the signal itself. A closure is a function
  of the store. \<^verbatim>\<open>set\<close> returns nothing (\<open>Inr ()\<close>) or lets the updater's exception
  through (\<open>Inl\<close>).
\<close>

record 'f Atom =
  get :: "'f heap \<Rightarrow> 'f jsval \<times> 'f heap"
  set_value :: "'f jsval \<Rightarrow> 'f heap \<Rightarrow> ('f jsval + unit) \<times> 'f heap"
  signal :: nat

text \<open>The body of \<^verbatim>\<open>get: () => sig.value\<close>, for the captured \<^verbatim>\<open>sig\<close>.\<close>

definition atom_get :: "nat \<Rightarrow> 'f heap \<Rightarrow> 'f jsval \<times> 'f heap" where
  "atom_get sig h = sig_read sig h"

text \<open>
  The body of \<^verbatim>\<open>set\<close>. In \<^verbatim>\<open>sig.value = value(sig.value)\<close> the right-hand side is
  evaluated first: the current value is read, the updater runs on it (in the store as it
  is, leaving the store as the updater leaves it), and only a normal return reaches the
  assignment.
\<close>

definition atom_set ::
  "'f interp \<Rightarrow> nat \<Rightarrow> 'f jsval \<Rightarrow> 'f heap \<Rightarrow> ('f jsval + unit) \<times> 'f heap" where
  "atom_set call sig value h =
     (if typeof value = ''function'' then
        (case sig_read sig h of (prev, h1) \<Rightarrow>
           (case js_call call value prev h1 of
              (Inl exn, h2) \<Rightarrow> (Inl exn, h2)
            | (Inr result, h2) \<Rightarrow> (Inr (), sig_write sig result h2)))
      else (Inr (), sig_write sig value h))"

text \<open>\<^verbatim>\<open>atom(initialValue)\<close>: a fresh signal, and the three fields built over it.\<close>

definition atom :: "'f interp \<Rightarrow> 'f jsval \<Rightarrow> 'f heap \<Rightarrow> 'f Atom \<times> 'f heap" where
  "atom call initialValue h =
     (case signal_new initialValue h of (sig, h') \<Rightarrow>
        (\<lparr>get = atom_get sig, set_value = atom_set call sig, signal = sig\<rparr>, h'))"

text \<open>\<^verbatim>\<open>useAtom(atom)\<close> returns \<^verbatim>\<open>[atom.signal.value, atom.set]\<close>.\<close>

definition useAtom ::
  "'f Atom \<Rightarrow> 'f heap \<Rightarrow>
     ('f jsval \<times> ('f jsval \<Rightarrow> 'f heap \<Rightarrow> ('f jsval + unit) \<times> 'f heap)) \<times> 'f heap" where
  "useAtom a h =
     (case sig_read (signal a) h of (v, h') \<Rightarrow> ((v, set_value a), h'))"

text \<open>
  What \<^verbatim>\<open>a.get()\<close> returns in a store, and the store that \<^verbatim>\<open>a.set(x)\<close> leaves.
\<close>

definition value_of :: "'f Atom \<Rightarrow> 'f heap \<Rightarrow> 'f jsval" where
  "value_of a h = fst (get a h)"

definition store_after_set :: "'f Atom \<Rightarrow> 'f jsval \<Rightarrow> 'f heap \<Rightarrow> 'f heap" where
  "store_after_set a x h = snd (set_value a x h)"

text \<open>
  On a set \<open>T\<close> of values (the values of the type \<^verbatim>\<open>T\<close> of the cell), a function name
  \<open>f\<close> denotes a pure function \<open>g\<close> when every call on a value \<open>x\<close> of \<open>T\<close> returns
  \<open>g x\<close>, throws nothing, and leaves the store as it is. Nothing is asked of \<open>f\<close> on
  values outside \<open>T\<close>.
\<close>

definition pure_function_on ::
  "'f interp \<Rightarrow> 'f \<Rightarrow> 'f jsval set \<Rightarrow> ('f jsval \<Rightarrow> 'f jsval) \<Rightarrow> bool" where
  "pure_function_on call f T g \<longleftrightarrow> (\<forall>x\<in>T. \<forall>h. call f x h = (Inr (g x), h))"

section \<open>Some closures\<close>

text \<open>
  \<^verbatim>\<open>Number.isSafeInteger\<close>: the integers that a number of the language holds exactly,
  up to \<^verbatim>\<open>Number.MAX_SAFE_INTEGER\<close> in size. The sum of two of them is exact when it is
  one of them again.
\<close>

definition safe_integer :: "int \<Rightarrow> bool" where
  "safe_integer n \<longleftrightarrow> \<bar>n\<bar> \<le> 9007199254740991"

text \<open>
  Concrete function values for the scenarios of the spec and of the tests. Each is a
  function of the language whose whole behaviour the values above can express; the
  numbers \<open>n\<close> and \<open>k\<close> written in them are safe integers.
  \<^item> \<open>Const n\<close> is \<^verbatim>\<open>() => n\<close>, a value of the type \<^verbatim>\<open>() => number\<close>.
  \<^item> \<open>AddConst k\<close> is the updater \<^verbatim>\<open>prev => prev + k\<close> of the scenarios, kept to the
    arguments on which the sum is an exact sum of integers:
    \<^verbatim>\<open>prev => { if (Number.isSafeInteger(prev) && Number.isSafeInteger(prev + k))
    return prev + k; throw 'unsupported' }\<close>.
    On a safe integer whose sum with \<open>k\<close> is safe, the two functions return the same
    number. On any other argument (not a number, or a sum that a number would round)
    \<open>AddConst k\<close> throws, and no statement about \<^verbatim>\<open>prev => prev + k\<close> is drawn from it
    there.
  \<^item> \<open>Throwing msg\<close> is \<^verbatim>\<open>prev => { throw msg }\<close>.
  \<^item> \<open>WriteThenThrow s n msg\<close> is \<^verbatim>\<open>prev => { s.value = n; throw msg }\<close>, for a
    signal \<open>s\<close> that the closure has captured (the field \<^verbatim>\<open>signal\<close> of an atom is
    public).
  \<^item> \<open>WriteThenReturn s n\<close> is \<^verbatim>\<open>prev => { s.value = n; return prev }\<close>.
\<close>

datatype closure =
    Const int
  | AddConst int
  | Throwing string
  | WriteThenThrow nat int string
  | WriteThenReturn nat int

fun run_closure :: "closure interp" where
  "run_closure (Const n) prev h = (Inr (JNum n), h)"
| "run_closure (AddConst k) prev h =
     (case prev of
        JNum n \<Rightarrow>
          if safe_integer n \<and> safe_integer (n + k) then (Inr (JNum (n + k)), h)
          else (Inl (JStr ''unsupported''), h)
      | _ \<Rightarrow> (Inl (JStr ''unsupported''), h))"
| "run_closure (Throwing msg) prev h = (Inl (JStr msg), h)"
| "run_closure (WriteThenThrow s n msg) prev h = (Inl (JStr msg), sig_write s (JNum n) h)"
| "run_closure (WriteThenReturn s n) prev h = (Inr prev, sig_write s (JNum n) h)"

text \<open>
  The numbers on which \<open>AddConst k\<close> is \<^verbatim>\<open>prev => prev + k\<close>.
\<close>

definition numbers_adding :: "int \<Rightarrow> closure jsval set" where
  "numbers_adding k = {x. \<exists>n. x = JNum n \<and> safe_integer n \<and> safe_integer (n + k)}"

text \<open>
  Two cells created one after the other in the empty store, both with \<^verbatim>\<open>atom(0)\<close>:
  \<open>storeA\<close> is the store after the first creation, \<open>storeAB\<close> after the second.
\<close>

definition cellA :: "closure Atom" where
  "cellA = fst (atom run_closure (JNum 0) empty_heap)"

definition storeA :: "closure heap" where
  "storeA = snd (atom run_closure (JNum 0) empty_heap)"

definition cellB :: "closure Atom" where
  "cellB = fst (atom run_closure (JNum 0) storeA)"

definition storeAB :: "closure heap" where
  "storeAB = snd (atom run_closure (JNum 0) storeA)"

section \<open>Basic facts\<close>

lemma atom_fields:
  "get (fst (atom call v h)) = atom_get (next_sig h)"
  "set_value (fst (atom call v h)) = atom_set call (next_sig h)"
  "signal (fst (atom call v h)) = next_sig h"
  by (simp_all add: atom_def signal_new_def)

lemma atom_heap:
  "snd (atom call v h) = snd (signal_new v h)"
  by (simp add: atom_def split: prod.split)

lemma signal_new_value:
  "sig_value (snd (signal_new v h)) (next_sig h) = v"
  by (simp add: signal_new_def)

lemma signal_new_next:
  "next_sig (snd (signal_new v h)) = Suc (next_sig h)"
  by (simp add: signal_new_def)

lemma typeof_function_iff:
  "typeof x = ''function'' \<longleftrightarrow> (\<exists>f. x = JFun f)"
  by (cases x) simp_all

lemma value_of_atom:
  "value_of (fst (atom call v h0)) h = sig_value h (next_sig h0)"
  by (simp add: value_of_def atom_fields atom_get_def sig_read_def)

lemma sig_write_same:
  "sig_value (sig_write s x h) s = x"
  by (simp add: sig_write_def)

lemma sig_write_other:
  "s \<noteq> t \<Longrightarrow> sig_value (sig_write s x h) t = sig_value h t"
  by (simp add: sig_write_def)

lemma atom_set_plain:
  "typeof x \<noteq> ''function'' \<Longrightarrow> atom_set call s x h = (Inr (), sig_write s x h)"
  by (simp add: atom_set_def)

lemma atom_set_returns:
  "call f (sig_value h s) h = (Inr r, h') \<Longrightarrow>
     atom_set call s (JFun f) h = (Inr (), sig_write s r h')"
  by (simp add: atom_set_def sig_read_def)

lemma atom_set_throws:
  "call f (sig_value h s) h = (Inl e, h') \<Longrightarrow> atom_set call s (JFun f) h = (Inl e, h')"
  by (simp add: atom_set_def sig_read_def)

lemma fixtures:
  "signal cellA = 0"
  "signal cellB = Suc 0"
  "get cellA = atom_get 0"
  "get cellB = atom_get (Suc 0)"
  "set_value cellA = atom_set run_closure 0"
  "set_value cellB = atom_set run_closure (Suc 0)"
  by (simp_all add: cellA_def cellB_def storeA_def atom_fields atom_heap signal_new_next
      empty_heap_def)

lemma fixture_stores:
  "sig_value storeA 0 = JNum 0"
  "sig_value storeAB 0 = JNum 0"
  "sig_value storeAB (Suc 0) = JNum 0"
  by (simp_all add: storeA_def storeAB_def atom_heap signal_new_def empty_heap_def)

section \<open>Creation\<close>

text \<open>
  C1. For every initial value \<open>v\<close> (a function value included), the cell that
  \<^verbatim>\<open>atom(v)\<close> returns answers \<^verbatim>\<open>get()\<close> with \<open>v\<close> itself, in the store that the creation
  leaves, and the read leaves that store as it is: the value is neither checked nor
  changed.
\<close>

theorem atom_get_initial:
  "get (fst (atom call v h)) (snd (atom call v h)) = (v, snd (atom call v h))"
  by (simp add: atom_fields atom_heap atom_get_def sig_read_def signal_new_value)

section \<open>Setting a value\<close>

text \<open>
  C2, as the spec states it, is false when \<open>w\<close> is of function type, as every value of
  a function type \<^verbatim>\<open>T\<close> is: for \<^verbatim>\<open>T = () => number\<close>, after \<^verbatim>\<open>atom(() => 1)\<close> and
  \<^verbatim>\<open>set(() => 2)\<close> the cell does not hold the function \<^verbatim>\<open>() => 2\<close>. It holds the number
  2, what the function returned when \<^verbatim>\<open>set\<close> called it.
\<close>

theorem set_any_value_counterexample:
  "value_of (fst (atom run_closure (JFun (Const 1)) empty_heap))
     (store_after_set (fst (atom run_closure (JFun (Const 1)) empty_heap)) (JFun (Const 2))
        (snd (atom run_closure (JFun (Const 1)) empty_heap)))
   \<noteq> JFun (Const 2)"
  by (simp add: value_of_atom store_after_set_def atom_fields atom_set_def sig_read_def
      sig_write_def)

text \<open>
  C2, amended. For all values \<open>v\<close> and \<open>w\<close> where \<open>w\<close> is not of function type, after
  \<^verbatim>\<open>atom(v)\<close> and \<^verbatim>\<open>set(w)\<close> the cell's \<^verbatim>\<open>get()\<close> returns \<open>w\<close>; and so does \<^verbatim>\<open>set(w)\<close>
  in any later store \<open>h'\<close>.
\<close>

theorem set_plain_value:
  assumes "typeof w \<noteq> ''function''"
  shows "value_of (fst (atom call v h))
           (store_after_set (fst (atom call v h)) w (snd (atom call v h))) = w
     \<and> value_of (fst (atom call v h)) (store_after_set (fst (atom call v h)) w h') = w"
  using assms
  by (simp add: value_of_atom store_after_set_def atom_fields atom_set_plain sig_write_same)

theorem set_plain_value_witness:
  "typeof (JNum 20 :: closure jsval) \<noteq> ''function''
   \<and> value_of (fst (atom run_closure (JNum 10) empty_heap))
        (store_after_set (fst (atom run_closure (JNum 10) empty_heap)) (JNum 20)
           (snd (atom run_closure (JNum 10) empty_heap))) = JNum 20"
  using set_plain_value [of "JNum 20 :: closure jsval" run_closure "JNum 10" empty_heap,
      THEN conjunct1]
  by simp

text \<open>
  C3. Let \<open>T\<close> be the set of values of the cell's type, \<open>v\<close> a value of \<open>T\<close>, and \<open>f\<close> a
  function value that on \<open>T\<close> denotes a pure function \<open>g\<close>. After \<^verbatim>\<open>atom(v)\<close> and
  \<^verbatim>\<open>set(f)\<close> the cell's \<^verbatim>\<open>get()\<close> returns \<open>g v\<close>; and in any store where the cell holds a
  value of \<open>T\<close>, \<^verbatim>\<open>set(f)\<close> calls the updater on that value and installs what it returns.
\<close>

theorem set_updater_installs_result:
  assumes "pure_function_on call f T g" and "v \<in> T"
  shows "value_of (fst (atom call v h))
           (store_after_set (fst (atom call v h)) (JFun f) (snd (atom call v h))) = g v
     \<and> (value_of (fst (atom call v h)) h' \<in> T \<longrightarrow>
          value_of (fst (atom call v h)) (store_after_set (fst (atom call v h)) (JFun f) h')
            = g (value_of (fst (atom call v h)) h'))"
proof -
  have ret: "call f x k = (Inr (g x), k)" if "x \<in> T" for x k
    using assms(1) that by (simp add: pure_function_on_def)
  have step: "atom_set call s (JFun f) k = (Inr (), sig_write s (g (sig_value k s)) k)"
    if "sig_value k s \<in> T" for s k
    by (rule atom_set_returns) (rule ret [OF that])
  have first: "value_of (fst (atom call v h))
      (store_after_set (fst (atom call v h)) (JFun f) (snd (atom call v h))) = g v"
    using assms(2)
    by (simp add: value_of_atom store_after_set_def atom_fields step sig_write_same
        atom_heap signal_new_value)
  have later: "value_of (fst (atom call v h)) h' \<in> T \<longrightarrow>
      value_of (fst (atom call v h)) (store_after_set (fst (atom call v h)) (JFun f) h')
        = g (value_of (fst (atom call v h)) h')"
    by (simp add: value_of_atom store_after_set_def atom_fields step sig_write_same)
  from first later show ?thesis by (rule conjI)
qed

theorem set_updater_installs_result_witness:
  "pure_function_on run_closure (AddConst 5) (numbers_adding 5)
     (\<lambda>x. case x of JNum n \<Rightarrow> JNum (n + 5) | _ \<Rightarrow> x)
   \<and> JNum 10 \<in> numbers_adding 5
   \<and> value_of (fst (atom run_closure (JNum 10) empty_heap))
        (store_after_set (fst (atom run_closure (JNum 10) empty_heap)) (JFun (AddConst 5))
           (snd (atom run_closure (JNum 10) empty_heap))) = JNum 15"
proof -
  have p: "pure_function_on run_closure (AddConst 5) (numbers_adding 5)
     (\<lambda>x. case x of JNum n \<Rightarrow> JNum (n + 5) | _ \<Rightarrow> x)"
    by (auto simp: pure_function_on_def numbers_adding_def)
  have m: "JNum 10 \<in> numbers_adding 5"
    by (simp add: numbers_adding_def safe_integer_def)
  have "value_of (fst (atom run_closure (JNum 10) empty_heap))
        (store_after_set (fst (atom run_closure (JNum 10) empty_heap)) (JFun (AddConst 5))
           (snd (atom run_closure (JNum 10) empty_heap))) = JNum 15"
    using set_updater_installs_result [OF p m, of empty_heap, THEN conjunct1] by simp
  with p m show ?thesis by simp
qed

section \<open>The pair of useAtom\<close>

text \<open>
  C4. For every cell made by \<^verbatim>\<open>atom\<close> and every store \<open>h'\<close>, \<^verbatim>\<open>useAtom(cell)\<close>
  returns the pair of what \<^verbatim>\<open>cell.get()\<close> returns in \<open>h'\<close> and the cell's own \<^verbatim>\<open>set\<close>
  (the same function, so calling it is calling \<^verbatim>\<open>cell.set\<close>), and leaves the store as
  it is.
\<close>

theorem useAtom_pair:
  "useAtom (fst (atom call v h)) h' =
     ((value_of (fst (atom call v h)) h', set_value (fst (atom call v h))), h')"
  by (simp add: useAtom_def value_of_atom atom_fields sig_read_def)

section \<open>An updater that throws\<close>

text \<open>
  C5, as the spec states it, is false for an updater that writes to the cell's signal
  before it throws: with \<^verbatim>\<open>c = atom(0)\<close> and the updater
  \<^verbatim>\<open>prev => { c.signal.value = 5; throw 'boom' }\<close>, \<^verbatim>\<open>c.set\<close> lets \<^verbatim>\<open>'boom'\<close> through
  and the cell then holds 5, not 0.
\<close>

theorem set_throwing_updater_counterexample:
  "fst (set_value cellA (JFun (WriteThenThrow (signal cellA) 5 ''boom'')) storeA)
     = Inl (JStr ''boom'')
   \<and> value_of cellA
       (store_after_set cellA (JFun (WriteThenThrow (signal cellA) 5 ''boom'')) storeA)
     \<noteq> value_of cellA storeA"
  by (simp add: value_of_def store_after_set_def fixtures fixture_stores atom_get_def
      atom_set_def sig_read_def sig_write_def)

text \<open>
  C5, amended. For every cell made by \<^verbatim>\<open>atom\<close> and every updater whose call on the
  current value throws \<open>exn\<close> and leaves the store \<open>h''\<close>, \<^verbatim>\<open>set\<close> makes no assignment:
  it ends with the same exception \<open>exn\<close> and with the store \<open>h''\<close> exactly as the updater
  left it. So the cell's value is what it was before the call whenever the updater has
  not itself written the cell's signal.
\<close>

theorem set_throwing_updater:
  assumes "call f (value_of (fst (atom call v h)) h') h' = (Inl exn, h'')"
  shows "set_value (fst (atom call v h)) (JFun f) h' = (Inl exn, h'')
     \<and> (sig_value h'' (signal (fst (atom call v h))) = sig_value h' (signal (fst (atom call v h)))
          \<longrightarrow> value_of (fst (atom call v h))
                (store_after_set (fst (atom call v h)) (JFun f) h')
              = value_of (fst (atom call v h)) h')"
proof -
  from assms have "call f (sig_value h' (next_sig h)) h' = (Inl exn, h'')"
    by (simp add: value_of_atom)
  then have "atom_set call (next_sig h) (JFun f) h' = (Inl exn, h'')"
    by (rule atom_set_throws)
  then show ?thesis
    by (simp add: atom_fields value_of_atom store_after_set_def)
qed

theorem set_throwing_updater_witness:
  "run_closure (Throwing ''boom'')
      (value_of (fst (atom run_closure (JNum 0) empty_heap))
         (snd (atom run_closure (JNum 0) empty_heap)))
      (snd (atom run_closure (JNum 0) empty_heap))
     = (Inl (JStr ''boom''), snd (atom run_closure (JNum 0) empty_heap))
   \<and> set_value (fst (atom run_closure (JNum 0) empty_heap)) (JFun (Throwing ''boom''))
        (snd (atom run_closure (JNum 0) empty_heap))
     = (Inl (JStr ''boom''), snd (atom run_closure (JNum 0) empty_heap))
   \<and> value_of (fst (atom run_closure (JNum 0) empty_heap))
        (store_after_set (fst (atom run_closure (JNum 0) empty_heap))
           (JFun (Throwing ''boom'')) (snd (atom run_closure (JNum 0) empty_heap)))
     = JNum 0"
proof -
  have t: "run_closure (Throwing ''boom'')
      (value_of (fst (atom run_closure (JNum 0) empty_heap))
         (snd (atom run_closure (JNum 0) empty_heap)))
      (snd (atom run_closure (JNum 0) empty_heap))
     = (Inl (JStr ''boom''), snd (atom run_closure (JNum 0) empty_heap))"
    by simp
  have v: "value_of (fst (atom run_closure (JNum 0) empty_heap))
      (snd (atom run_closure (JNum 0) empty_heap)) = (JNum 0 :: closure jsval)"
    by (simp add: value_of_atom atom_heap signal_new_value)
  show ?thesis
    using t v
      set_throwing_updater [where call = run_closure and f = "Throwing ''boom''"
        and v = "JNum 0" and h = empty_heap
        and h' = "snd (atom run_closure (JNum 0) empty_heap)"
        and exn = "JStr ''boom''" and h'' = "snd (atom run_closure (JNum 0) empty_heap)"]
    by simp
qed

section \<open>The dispatch of set\<close>

text \<open>
  C6. \<^verbatim>\<open>set\<close> decides by \<^verbatim>\<open>typeof\<close>. An argument of function type is a function value
  \<open>f\<close>, and \<^verbatim>\<open>set\<close> calls it on the current value: when the call returns \<open>r\<close> it is \<open>r\<close>
  that is written to the signal, when the call throws nothing is written; the argument
  itself is not what is written. An argument of any other type is written as it is.
\<close>

theorem set_dispatch:
  "(typeof x = ''function'' \<longrightarrow>
      (\<exists>f. x = JFun f \<and>
         set_value (fst (atom call v h)) x h' =
           (case call f (value_of (fst (atom call v h)) h') h' of
              (Inl exn, h'') \<Rightarrow> (Inl exn, h'')
            | (Inr r, h'') \<Rightarrow> (Inr (), sig_write (signal (fst (atom call v h))) r h''))))
   \<and> (typeof x \<noteq> ''function'' \<longrightarrow>
        set_value (fst (atom call v h)) x h' =
          (Inr (), sig_write (signal (fst (atom call v h))) x h'))"
proof (cases "typeof x = ''function''")
  case True
  then obtain f where "x = JFun f"
    by (auto simp: typeof_function_iff)
  then show ?thesis
    by (simp add: atom_fields value_of_atom atom_set_def sig_read_def
        split: prod.split sum.split)
next
  case False
  then show ?thesis
    by (simp add: atom_fields atom_set_plain)
qed

theorem set_dispatch_witness:
  "typeof (JFun (AddConst 1)) = ''function''
   \<and> set_value cellA (JFun (AddConst 1)) storeA = (Inr (), sig_write 0 (JNum 1) storeA)
   \<and> typeof (JNum 20 :: closure jsval) \<noteq> ''function''
   \<and> set_value cellA (JNum 20) storeA = (Inr (), sig_write 0 (JNum 20) storeA)"
proof -
  have a: "fst (atom run_closure (JNum 0) empty_heap) = cellA"
    by (simp add: cellA_def)
  have v: "value_of cellA storeA = JNum 0"
    by (simp add: value_of_def fixtures atom_get_def sig_read_def fixture_stores)
  show ?thesis
    using set_dispatch [of "JFun (AddConst 1)" run_closure "JNum 0" empty_heap storeA]
      set_dispatch [of "JNum 20 :: closure jsval" run_closure "JNum 0" empty_heap storeA]
    by (simp add: a v fixtures safe_integer_def)
qed

section \<open>Reading\<close>

text \<open>
  C7. For every cell made by \<^verbatim>\<open>atom\<close> and every store \<open>h'\<close>: \<^verbatim>\<open>get()\<close> leaves the store
  as it is, and a second \<^verbatim>\<open>get()\<close> right after the first returns the same value and
  again leaves the store as it is.
\<close>

theorem get_twice:
  "snd (get (fst (atom call v h)) h') = h'
   \<and> get (fst (atom call v h)) (snd (get (fst (atom call v h)) h'))
       = get (fst (atom call v h)) h'"
  by (simp add: atom_fields atom_get_def sig_read_def)

section \<open>The scenarios\<close>

text \<open>
  C8. In any store: after \<^verbatim>\<open>atom(0)\<close> and \<^verbatim>\<open>set(x => x + 1)\<close> twice, \<^verbatim>\<open>get()\<close> returns 2;
  and after \<^verbatim>\<open>atom(10)\<close>, \<^verbatim>\<open>get()\<close> returns 10, after \<^verbatim>\<open>set(20)\<close> it returns 20, and
  after \<^verbatim>\<open>set(prev => prev + 5)\<close> it returns 25.
\<close>

theorem sequential_updates:
  "(let c = fst (atom run_closure (JNum 0) h); s0 = snd (atom run_closure (JNum 0) h);
        s1 = store_after_set c (JFun (AddConst 1)) s0;
        s2 = store_after_set c (JFun (AddConst 1)) s1
    in value_of c s2 = JNum 2)
   \<and> (let c = fst (atom run_closure (JNum 10) h); s0 = snd (atom run_closure (JNum 10) h);
          s1 = store_after_set c (JNum 20) s0;
          s2 = store_after_set c (JFun (AddConst 5)) s1
      in value_of c s0 = JNum 10 \<and> value_of c s1 = JNum 20 \<and> value_of c s2 = JNum 25)"
  by (simp add: Let_def value_of_atom store_after_set_def atom_fields atom_heap
      signal_new_value atom_set_def sig_read_def sig_write_def safe_integer_def)

section \<open>The signal and the cell\<close>

text \<open>
  C9. For every cell made by \<^verbatim>\<open>atom\<close> and every store \<open>h'\<close> (so every store the
  program can reach): \<^verbatim>\<open>get()\<close> is the read of the cell's signal and returns what the
  signal holds; the store that \<^verbatim>\<open>set\<close> leaves is the one write to the signal, of the
  plain value in the store as it was, or of the updater's result in the store as the
  updater left it, and is no write at all when the updater throws; and what is written
  to the signal is what the next \<^verbatim>\<open>get()\<close> returns.
\<close>

theorem signal_is_the_cell:
  "get (fst (atom call v h)) h' = sig_read (signal (fst (atom call v h))) h'
   \<and> value_of (fst (atom call v h)) h' = sig_value h' (signal (fst (atom call v h)))
   \<and> (typeof x \<noteq> ''function'' \<longrightarrow>
        store_after_set (fst (atom call v h)) x h'
          = sig_write (signal (fst (atom call v h))) x h')
   \<and> (call f (value_of (fst (atom call v h)) h') h' = (Inr r, h'') \<longrightarrow>
        store_after_set (fst (atom call v h)) (JFun f) h'
          = sig_write (signal (fst (atom call v h))) r h'')
   \<and> (call f (value_of (fst (atom call v h)) h') h' = (Inl exn, h'') \<longrightarrow>
        store_after_set (fst (atom call v h)) (JFun f) h' = h'')
   \<and> value_of (fst (atom call v h)) (sig_write (signal (fst (atom call v h))) w h') = w"
  by (simp add: value_of_atom atom_fields atom_get_def store_after_set_def atom_set_plain
      atom_set_returns atom_set_throws sig_write_same)

theorem signal_is_the_cell_witness:
  "value_of cellA storeA = sig_value storeA (signal cellA)
   \<and> typeof (JNum 20 :: closure jsval) \<noteq> ''function''
   \<and> store_after_set cellA (JNum 20) storeA = sig_write (signal cellA) (JNum 20) storeA
   \<and> run_closure (AddConst 5) (value_of cellA storeA) storeA = (Inr (JNum 5), storeA)
   \<and> store_after_set cellA (JFun (AddConst 5)) storeA
       = sig_write (signal cellA) (JNum 5) storeA
   \<and> run_closure (Throwing ''boom'') (value_of cellA storeA) storeA
       = (Inl (JStr ''boom''), storeA)
   \<and> store_after_set cellA (JFun (Throwing ''boom'')) storeA = storeA
   \<and> value_of cellA (sig_write (signal cellA) (JNum 20) storeA) = JNum 20"
proof -
  have v: "value_of cellA storeA = JNum 0"
    by (simp add: value_of_def fixtures atom_get_def sig_read_def fixture_stores)
  have plain: "typeof (JNum 20 :: closure jsval) \<noteq> ''function''"
    by simp
  have returns: "run_closure (AddConst 5) (value_of cellA storeA) storeA
      = (Inr (JNum 5), storeA)"
    by (simp add: v safe_integer_def)
  have throws: "run_closure (Throwing ''boom'') (value_of cellA storeA) storeA
      = (Inl (JStr ''boom''), storeA)"
    by simp
  note at_returns = signal_is_the_cell [where call = run_closure and v = "JNum 0"
      and h = empty_heap and h' = storeA and x = "JNum 20" and f = "AddConst 5"
      and r = "JNum 5" and h'' = storeA and w = "JNum 20", folded cellA_def]
  note at_throws = signal_is_the_cell [where call = run_closure and v = "JNum 0"
      and h = empty_heap and h' = storeA and x = "JNum 20" and f = "Throwing ''boom''"
      and exn = "JStr ''boom''" and h'' = storeA and w = "JNum 20", folded cellA_def]
  from at_returns at_throws plain returns throws show ?thesis
    by blast
qed

section \<open>Two cells\<close>

text \<open>
  C10, as stated, is false for an updater that writes to the other cell's signal: with
  \<^verbatim>\<open>a = atom(0)\<close>, \<^verbatim>\<open>b = atom(0)\<close> and the updater
  \<^verbatim>\<open>prev => { b.signal.value = 7; return prev }\<close>, after \<^verbatim>\<open>a.set\<close> of it \<^verbatim>\<open>b.get()\<close>
  returns 7, not 0.
\<close>

theorem set_other_cell_counterexample:
  "value_of cellB (store_after_set cellA (JFun (WriteThenReturn (signal cellB) 7)) storeAB)
     \<noteq> value_of cellB storeAB"
  by (simp add: value_of_def store_after_set_def fixtures fixture_stores atom_get_def
      atom_set_def sig_read_def sig_write_def)

text \<open>
  C10, amended. Let \<open>a\<close> be made by \<^verbatim>\<open>atom\<close> in a store \<open>h\<close> and \<open>b\<close> by a separate call
  of \<^verbatim>\<open>atom\<close> in a later store \<open>k\<close> (one where allocation has not gone back). Then the
  two signals differ, and in every store \<open>h'\<close>, for either cell \<open>c\<close> of the two and the
  other cell \<open>d\<close>: \<^verbatim>\<open>c.set\<close> with a value that is not a function leaves \<^verbatim>\<open>d.get()\<close>
  unchanged, and \<^verbatim>\<open>c.set\<close> with an updater leaves \<^verbatim>\<open>d.get()\<close> as the updater's own run
  left it (so unchanged when the updater does not write \<open>d\<close>'s signal): the assignment
  that \<^verbatim>\<open>set\<close> makes goes to the cell's own signal only.
\<close>

theorem separate_cells_independent:
  assumes "next_sig (snd (atom call v h)) \<le> next_sig k"
  shows "signal (fst (atom call v h)) \<noteq> signal (fst (atom call w k))
   \<and> (typeof x \<noteq> ''function'' \<longrightarrow>
        value_of (fst (atom call w k)) (store_after_set (fst (atom call v h)) x h')
          = value_of (fst (atom call w k)) h'
      \<and> value_of (fst (atom call v h)) (store_after_set (fst (atom call w k)) x h')
          = value_of (fst (atom call v h)) h')
   \<and> (call f (value_of (fst (atom call v h)) h') h' = (res, h'') \<longrightarrow>
        value_of (fst (atom call w k)) (store_after_set (fst (atom call v h)) (JFun f) h')
          = value_of (fst (atom call w k)) h'')
   \<and> (call f (value_of (fst (atom call w k)) h') h' = (res, h'') \<longrightarrow>
        value_of (fst (atom call v h)) (store_after_set (fst (atom call w k)) (JFun f) h')
          = value_of (fst (atom call v h)) h'')"
proof -
  from assms have ne: "next_sig h \<noteq> next_sig k"
    by (simp add: atom_heap signal_new_next)
  have upd: "sig_value (snd (atom_set call s (JFun f) h')) t = sig_value h'' t"
    if "call f (sig_value h' s) h' = (res, h'')" and "s \<noteq> t" for s t
  proof (cases res)
    case (Inl e)
    with that show ?thesis by (simp add: atom_set_throws)
  next
    case (Inr r)
    with that show ?thesis by (simp add: atom_set_returns sig_write_other)
  qed
  have "signal (fst (atom call v h)) \<noteq> signal (fst (atom call w k))"
    using ne by (simp add: atom_fields)
  moreover have "typeof x \<noteq> ''function'' \<longrightarrow>
        value_of (fst (atom call w k)) (store_after_set (fst (atom call v h)) x h')
          = value_of (fst (atom call w k)) h'
      \<and> value_of (fst (atom call v h)) (store_after_set (fst (atom call w k)) x h')
          = value_of (fst (atom call v h)) h'"
    using ne
    by (simp add: value_of_atom store_after_set_def atom_fields atom_set_plain sig_write_def)
  moreover have "call f (value_of (fst (atom call v h)) h') h' = (res, h'') \<longrightarrow>
        value_of (fst (atom call w k)) (store_after_set (fst (atom call v h)) (JFun f) h')
          = value_of (fst (atom call w k)) h''"
    using ne by (simp add: value_of_atom store_after_set_def atom_fields upd)
  moreover have "call f (value_of (fst (atom call w k)) h') h' = (res, h'') \<longrightarrow>
        value_of (fst (atom call v h)) (store_after_set (fst (atom call w k)) (JFun f) h')
          = value_of (fst (atom call v h)) h''"
    using ne by (simp add: value_of_atom store_after_set_def atom_fields upd)
  ultimately show ?thesis by blast
qed

theorem separate_cells_independent_witness:
  "next_sig (snd (atom run_closure (JNum 0) empty_heap)) \<le> next_sig storeA
   \<and> signal cellA \<noteq> signal cellB
   \<and> typeof (JNum 20 :: closure jsval) \<noteq> ''function''
   \<and> value_of cellB (store_after_set cellA (JNum 20) storeAB) = value_of cellB storeAB
   \<and> value_of cellA (store_after_set cellB (JNum 20) storeAB) = value_of cellA storeAB
   \<and> run_closure (AddConst 5) (value_of cellA storeAB) storeAB = (Inr (JNum 5), storeAB)
   \<and> value_of cellB (store_after_set cellA (JFun (AddConst 5)) storeAB)
       = value_of cellB storeAB
   \<and> run_closure (AddConst 5) (value_of cellB storeAB) storeAB = (Inr (JNum 5), storeAB)
   \<and> value_of cellA (store_after_set cellB (JFun (AddConst 5)) storeAB)
       = value_of cellA storeAB"
proof -
  have le: "next_sig (snd (atom run_closure (JNum 0) empty_heap)) \<le> next_sig storeA"
    by (simp add: storeA_def)
  have v: "value_of cellA storeAB = JNum 0" "value_of cellB storeAB = JNum 0"
    by (simp_all add: value_of_def fixtures atom_get_def sig_read_def fixture_stores)
  have plain: "typeof (JNum 20 :: closure jsval) \<noteq> ''function''"
    by simp
  have runs:
    "run_closure (AddConst 5) (value_of cellA storeAB) storeAB = (Inr (JNum 5), storeAB)"
    "run_closure (AddConst 5) (value_of cellB storeAB) storeAB = (Inr (JNum 5), storeAB)"
    by (simp_all add: v safe_integer_def)
  note frame = separate_cells_independent [OF le, where w = "JNum 0" and x = "JNum 20"
      and h' = storeAB and f = "AddConst 5" and res = "Inr (JNum 5)" and h'' = storeAB,
      folded cellA_def cellB_def]
  from frame le plain runs show ?thesis
    by blast
qed

end
